theory Spec2Isabelle
  imports Complex_Main
begin

section \<open>Floating-point values and 2D arrays\<close>

text \<open>
  The solver of \<^verbatim>\<open>solver.py\<close> computes with numpy float64 values. They are modelled as
  real numbers together with one extra value \<open>NaN\<close>: rounding, overflow and underflow are
  idealised away, while the one exceptional value the program can produce, \<open>0.0 / 0.0\<close>,
  is kept, because numpy does not raise on it (it warns and yields \<^verbatim>\<open>nan\<close>) and the
  program goes on computing with the result. Every operation with a \<open>NaN\<close> operand
  yields \<open>NaN\<close>, and every comparison with a \<open>NaN\<close> operand is false.
\<close>

datatype fl = Fin real | NaN

fun fadd :: "fl \<Rightarrow> fl \<Rightarrow> fl" where
  "fadd (Fin a) (Fin b) = Fin (a + b)"
| "fadd _ _ = NaN"

fun fsub :: "fl \<Rightarrow> fl \<Rightarrow> fl" where
  "fsub (Fin a) (Fin b) = Fin (a - b)"
| "fsub _ _ = NaN"

fun fmul :: "fl \<Rightarrow> fl \<Rightarrow> fl" where
  "fmul (Fin a) (Fin b) = Fin (a * b)"
| "fmul _ _ = NaN"

text \<open>
  Division: \<open>0 / 0\<close> is \<open>NaN\<close>. IEEE gives an infinity for \<open>a / 0\<close> with \<open>a \<noteq> 0\<close>; the
  program only ever divides the components of a vector by that vector's own norm, and
  over the reals the norm is \<open>0\<close> only when both components are \<open>0\<close> (lemma
  \<open>linalg_norm_zero_iff\<close> below), so that case is never reached and is mapped to \<open>NaN\<close>
  as well.
\<close>

fun fdiv :: "fl \<Rightarrow> fl \<Rightarrow> fl" where
  "fdiv (Fin a) (Fin b) = (if b = 0 then NaN else Fin (a / b))"
| "fdiv _ _ = NaN"

fun fless :: "fl \<Rightarrow> fl \<Rightarrow> bool" where
  "fless (Fin a) (Fin b) = (a < b)"
| "fless _ _ = False"

text \<open>A numpy array of two floats.\<close>

type_synonym vec = "fl \<times> fl"

definition arr :: "real \<times> real \<Rightarrow> vec" where
  "arr p = (Fin (fst p), Fin (snd p))"

definition vadd :: "vec \<Rightarrow> vec \<Rightarrow> vec" where
  "vadd u v = (fadd (fst u) (fst v), fadd (snd u) (snd v))"

definition vsub :: "vec \<Rightarrow> vec \<Rightarrow> vec" where
  "vsub u v = (fsub (fst u) (fst v), fsub (snd u) (snd v))"

definition vscale :: "vec \<Rightarrow> real \<Rightarrow> vec" where
  "vscale u k = (fmul (fst u) (Fin k), fmul (snd u) (Fin k))"

definition vdiv :: "vec \<Rightarrow> fl \<Rightarrow> vec" where
  "vdiv u d = (fdiv (fst u) d, fdiv (snd u) d)"

text \<open>\<^verbatim>\<open>np.linalg.norm\<close> of a two-element array.\<close>

fun linalg_norm :: "vec \<Rightarrow> fl" where
  "linalg_norm (Fin x, Fin y) = Fin (sqrt (x * x + y * y))"
| "linalg_norm _ = NaN"

definition unitVector :: "vec \<Rightarrow> vec" where
  "unitVector vector = vdiv vector (linalg_norm vector)"

definition radians :: "real \<Rightarrow> real" where
  "radians d = d * pi / 180"

section \<open>Segments and the solver state\<close>

record Segment2D =
  angle :: real
  length_seg :: real
  point :: vec

definition Segment2D_init :: "fl \<Rightarrow> fl \<Rightarrow> real \<Rightarrow> real \<Rightarrow> Segment2D" where
  "Segment2D_init referenceX referenceY len ang =
     (let deltaX = cos (radians ang) * len;
          deltaY = sin (radians ang) * len
      in \<lparr>angle = ang, length_seg = len,
          point = (fadd referenceX (Fin deltaX), fadd referenceY (Fin deltaY))\<rparr>)"

record FabrikSolver2D =
  basePoint :: "real \<times> real"
  segments :: "Segment2D list"
  armLength :: real
  marginOfError :: real

definition FabrikSolver2D_init :: "real \<Rightarrow> real \<Rightarrow> real \<Rightarrow> FabrikSolver2D" where
  "FabrikSolver2D_init baseX baseY margin =
     \<lparr>basePoint = (baseX, baseY), segments = [], armLength = 0, marginOfError = margin\<rparr>"

datatype error = IndexError

section \<open>Operations of the solver\<close>

definition addSegment :: "FabrikSolver2D \<Rightarrow> real \<Rightarrow> real \<Rightarrow> FabrikSolver2D" where
  "addSegment s len ang =
     (let segment =
            (if length (segments s) > 0
             then Segment2D_init (fst (point (last (segments s)))) (snd (point (last (segments s))))
                    len (ang + angle (last (segments s)))
             else Segment2D_init (Fin (fst (basePoint s))) (Fin (snd (basePoint s))) len ang)
      in s\<lparr>armLength := armLength s + length_seg segment,
           segments := segments s @ [segment]\<rparr>)"

definition isReachable :: "FabrikSolver2D \<Rightarrow> real \<Rightarrow> real \<Rightarrow> bool" where
  "isReachable s targetX targetY =
     (let distance = linalg_norm (vsub (arr (basePoint s)) (arr (targetX, targetY)))
      in fless distance (Fin (armLength s)))"

text \<open>\<^verbatim>\<open>self.segments[-1]\<close> raises \<^verbatim>\<open>IndexError\<close> on an empty list.\<close>

definition inMarginOfError :: "FabrikSolver2D \<Rightarrow> real \<Rightarrow> real \<Rightarrow> error + bool" where
  "inMarginOfError s targetX targetY =
     (if segments s = [] then Inl IndexError
      else let distance = linalg_norm (vsub (point (last (segments s))) (arr (targetX, targetY)))
           in Inr (fless distance (Fin (marginOfError s))))"

text \<open>
  One step of the backward loop \<^verbatim>\<open>for i in range(len(self.segments) - 1, 0, -1)\<close>: it
  assigns \<^verbatim>\<open>self.segments[i-1].point\<close>.
\<close>

definition backward_step :: "vec \<Rightarrow> nat \<Rightarrow> Segment2D list \<Rightarrow> Segment2D list" where
  "backward_step target i segs =
     (if i = length segs - 1
      then segs[i - 1 := (segs ! (i - 1))\<lparr>point :=
             vadd (vscale (unitVector (vsub (point (segs ! (i - 1))) target))
                          (length_seg (segs ! i)))
                  target\<rparr>]
      else segs[i - 1 := (segs ! (i - 1))\<lparr>point :=
             vadd (vscale (unitVector (vsub (point (segs ! (i - 1))) (point (segs ! i))))
                          (length_seg (segs ! i)))
                  (point (segs ! i))\<rparr>])"

text \<open>
  One step of the forward loop \<^verbatim>\<open>for i in range(len(self.segments))\<close>: it assigns
  \<^verbatim>\<open>self.segments[i].point\<close>.
\<close>

definition forward_step :: "vec \<Rightarrow> vec \<Rightarrow> nat \<Rightarrow> Segment2D list \<Rightarrow> Segment2D list" where
  "forward_step base target i segs =
     (if i = 0
      then segs[i := (segs ! i)\<lparr>point :=
             vadd (vscale (unitVector (vsub (point (segs ! i)) base))
                          (length_seg (segs ! i)))
                  base\<rparr>]
      else if i = length segs - 1
      then segs[i := (segs ! i)\<lparr>point :=
             vadd (vscale (vscale (unitVector (vsub (point (segs ! (i - 1))) target))
                                  (length_seg (segs ! i)))
                          (- 1))
                  (point (segs ! (i - 1)))\<rparr>]
      else segs[i := (segs ! i)\<lparr>point :=
             vadd (vscale (unitVector (vsub (point (segs ! i)) (point (segs ! (i - 1)))))
                          (length_seg (segs ! i)))
                  (point (segs ! (i - 1)))\<rparr>])"

definition backward_pass :: "vec \<Rightarrow> Segment2D list \<Rightarrow> Segment2D list" where
  "backward_pass target segs = fold (backward_step target) (rev [1..<length segs]) segs"

definition forward_pass :: "vec \<Rightarrow> vec \<Rightarrow> Segment2D list \<Rightarrow> Segment2D list" where
  "forward_pass base target segs = fold (forward_step base target) [0..<length segs] segs"

definition iterate :: "FabrikSolver2D \<Rightarrow> real \<Rightarrow> real \<Rightarrow> FabrikSolver2D" where
  "iterate s targetX targetY =
     (let target = arr (targetX, targetY)
      in s\<lparr>segments :=
             forward_pass (arr (basePoint s)) target (backward_pass target (segments s))\<rparr>)"

text \<open>
  The loop \<^verbatim>\<open>while not self.inMarginOfError(...): self.iterate(...)\<close> of \<^verbatim>\<open>compute\<close>.
  It has no bound in the source, so it is a partial function: \<open>None\<close> means that the
  loop never ends.
\<close>

partial_function (option) compute_loop ::
  "FabrikSolver2D \<Rightarrow> real \<Rightarrow> real \<Rightarrow> (error + FabrikSolver2D) option" where
  "compute_loop s targetX targetY =
     (case inMarginOfError s targetX targetY of
        Inl e \<Rightarrow> Some (Inl e)
      | Inr done_now \<Rightarrow>
          if \<not> done_now then compute_loop (iterate s targetX targetY) targetX targetY
          else Some (Inr s))"

text \<open>
  \<^verbatim>\<open>compute\<close> returns the boolean and leaves the solver in a new state; the model returns
  both. \<open>None\<close>: the call does not return; \<open>Some (Inl e)\<close>: it raises \<open>e\<close>.
\<close>

definition compute ::
  "FabrikSolver2D \<Rightarrow> real \<Rightarrow> real \<Rightarrow> (error + bool \<times> FabrikSolver2D) option" where
  "compute s targetX targetY =
     (if \<not> isReachable s targetX targetY then Some (Inr (False, s))
      else case compute_loop s targetX targetY of
             None \<Rightarrow> None
           | Some (Inl e) \<Rightarrow> Some (Inl e)
           | Some (Inr s') \<Rightarrow> Some (Inr (True, s')))"

definition get_joint_positions :: "FabrikSolver2D \<Rightarrow> vec list" where
  "get_joint_positions s = arr (basePoint s) # map point (segments s)"

section \<open>Notions of the specification\<close>

text \<open>The Euclidean distance between two points of the plane, as the specification uses it.\<close>

definition euclid_dist :: "real \<times> real \<Rightarrow> real \<times> real \<Rightarrow> real" where
  "euclid_dist p q = sqrt ((fst p - fst q)\<^sup>2 + (snd p - snd q)\<^sup>2)"

text \<open>The state after \<open>n\<close> calls of \<^verbatim>\<open>iterate\<close> with the same target.\<close>

definition iterate_n :: "nat \<Rightarrow> FabrikSolver2D \<Rightarrow> real \<Rightarrow> real \<Rightarrow> FabrikSolver2D" where
  "iterate_n n s targetX targetY = ((\<lambda>s'. iterate s' targetX targetY) ^^ n) s"

text \<open>
  The arm that \<^verbatim>\<open>visualizer.py\<close> builds, moved to the origin: three segments of lengths
  150, 120 and 100, each at relative angle 0, margin 1/100.
\<close>

definition scenario_arm :: FabrikSolver2D where
  "scenario_arm =
     addSegment (addSegment (addSegment (FabrikSolver2D_init 0 0 (1 / 100)) 150 0) 120 0) 100 0"

text \<open>A chain with a single segment of length 1 along the X axis, base at the origin.\<close>

definition one_segment_arm :: FabrikSolver2D where
  "one_segment_arm = addSegment (FabrikSolver2D_init 0 0 (1 / 100)) 1 0"

text \<open>A chain with two segments of length 1 along the X axis, base at the origin.\<close>

definition two_segment_arm :: FabrikSolver2D where
  "two_segment_arm = addSegment (addSegment (FabrikSolver2D_init 0 0 (1 / 100)) 1 0) 1 0"

text \<open>
  The pose in which \<open>scenario_arm\<close> gets stuck for the target \<open>(200, 0)\<close>: the last segment
  folded back along the X axis, its joint at \<open>(170, 0)\<close>.
\<close>

definition scenario_folded :: FabrikSolver2D where
  "scenario_folded = \<lparr>basePoint = (0, 0),
      segments = [\<lparr>angle = 0, length_seg = 150, point = (Fin 150, Fin 0)\<rparr>,
                  \<lparr>angle = 0, length_seg = 120, point = (Fin 270, Fin 0)\<rparr>,
                  \<lparr>angle = 0, length_seg = 100, point = (Fin 170, Fin 0)\<rparr>],
      armLength = 370, marginOfError = 1 / 100\<rparr>"

text \<open>
  The state of \<open>scenario_arm\<close> after a pass whose target is its second joint \<open>(270, 0)\<close>:
  every joint position is \<open>NaN\<close>.
\<close>

definition scenario_nan :: FabrikSolver2D where
  "scenario_nan = \<lparr>basePoint = (0, 0),
      segments = [\<lparr>angle = 0, length_seg = 150, point = (NaN, NaN)\<rparr>,
                  \<lparr>angle = 0, length_seg = 120, point = (NaN, NaN)\<rparr>,
                  \<lparr>angle = 0, length_seg = 100, point = (NaN, NaN)\<rparr>],
      armLength = 370, marginOfError = 1 / 100\<rparr>"

section \<open>Basic facts\<close>

lemma linalg_norm_arr_diff:
  "linalg_norm (vsub (arr p) (arr q)) = Fin (euclid_dist p q)"
  by (simp add: arr_def vsub_def euclid_dist_def power2_eq_square)

lemma scenario_arm_eq:
  "scenario_arm = \<lparr>basePoint = (0, 0),
      segments = [\<lparr>angle = 0, length_seg = 150, point = (Fin 150, Fin 0)\<rparr>,
                  \<lparr>angle = 0, length_seg = 120, point = (Fin 270, Fin 0)\<rparr>,
                  \<lparr>angle = 0, length_seg = 100, point = (Fin 370, Fin 0)\<rparr>],
      armLength = 370, marginOfError = 1 / 100\<rparr>"
  by (simp add: scenario_arm_def addSegment_def FabrikSolver2D_init_def Segment2D_init_def
      radians_def)

section \<open>Reachability\<close>

text \<open>
  Claim C5. \<^verbatim>\<open>isReachable\<close> is true exactly when the Euclidean distance from the base
  point to the target is strictly less than \<^verbatim>\<open>armLength\<close>; a freshly constructed solver
  (no segments, \<^verbatim>\<open>armLength = 0\<close>) is reachable for no target at all.
\<close>

theorem isReachable_iff_dist:
  "(isReachable s targetX targetY \<longleftrightarrow>
      euclid_dist (basePoint s) (targetX, targetY) < armLength s)
   \<and> \<not> isReachable (FabrikSolver2D_init baseX baseY margin) targetX targetY"
  by (simp add: isReachable_def linalg_norm_arr_diff FabrikSolver2D_init_def euclid_dist_def
      not_less)

text \<open>
  Claim C4. When the distance from the base point to the target is greater than or equal
  to \<^verbatim>\<open>armLength\<close>, \<^verbatim>\<open>compute\<close> returns \<^verbatim>\<open>False\<close> and the solver state (every joint
  position and every other field) is the one it was called with.
\<close>

theorem compute_unreachable:
  assumes "armLength s \<le> euclid_dist (basePoint s) (targetX, targetY)"
  shows "compute s targetX targetY = Some (Inr (False, s))"
  using assms by (simp add: compute_def isReachable_def linalg_norm_arr_diff)

theorem compute_unreachable_witness:
  "armLength scenario_arm \<le> euclid_dist (basePoint scenario_arm) (500, 0)
   \<and> compute scenario_arm 500 0 = Some (Inr (False, scenario_arm))"
proof -
  have h: "armLength scenario_arm \<le> euclid_dist (basePoint scenario_arm) (500, 0)"
    by (simp add: scenario_arm_eq euclid_dist_def)
  show ?thesis using h compute_unreachable [OF h] by simp
qed

lemma one_segment_arm_eq:
  "one_segment_arm = \<lparr>basePoint = (0, 0),
      segments = [\<lparr>angle = 0, length_seg = 1, point = (Fin 1, Fin 0)\<rparr>],
      armLength = 1, marginOfError = 1 / 100\<rparr>"
  by (simp add: one_segment_arm_def addSegment_def FabrikSolver2D_init_def Segment2D_init_def
      radians_def)

section \<open>Building the chain\<close>

text \<open>
  Claim C9. For a positive length, \<^verbatim>\<open>addSegment\<close> appends one segment: it is anchored at
  the last joint position (the base point if the chain is empty), its stored angle is the
  relative angle plus the stored angle of the previous segment (the relative angle alone
  for the first segment), its joint position is the anchor plus
  \<open>length * (cos angle, sin angle)\<close> with the angle converted from degrees to radians, and
  \<^verbatim>\<open>armLength\<close> grows by exactly the length; nothing else changes.
\<close>

theorem addSegment_appends:
  assumes "0 < len"
  shows "segments (addSegment s len ang) =
           segments s @
             [\<lparr>angle = (if segments s = [] then ang else ang + angle (last (segments s))),
               length_seg = len,
               point = vadd (if segments s = [] then arr (basePoint s)
                             else point (last (segments s)))
                            (arr (len * cos (radians (if segments s = [] then ang
                                                      else ang + angle (last (segments s)))),
                                  len * sin (radians (if segments s = [] then ang
                                                      else ang + angle (last (segments s))))))\<rparr>]
         \<and> armLength (addSegment s len ang) = armLength s + len
         \<and> basePoint (addSegment s len ang) = basePoint s
         \<and> marginOfError (addSegment s len ang) = marginOfError s"
  by (simp add: addSegment_def Segment2D_init_def vadd_def arr_def mult.commute)

theorem addSegment_appends_witness:
  "(0::real) < 2
   \<and> segments (addSegment one_segment_arm 2 0) =
       [\<lparr>angle = 0, length_seg = 1, point = (Fin 1, Fin 0)\<rparr>,
        \<lparr>angle = 0, length_seg = 2, point = (Fin 3, Fin 0)\<rparr>]
   \<and> armLength (addSegment one_segment_arm 2 0) = 3"
proof -
  have h: "(0::real) < 2" by simp
  show ?thesis
    using h addSegment_appends [OF h, of one_segment_arm 0]
    by (simp add: one_segment_arm_eq vadd_def arr_def radians_def)
qed

text \<open>
  Claim C6 (as the code has it). \<^verbatim>\<open>addSegment\<close> has no check of its length argument
  and no \<^verbatim>\<open>raise\<close>: with a zero or negative length it appends the segment all the same.
  The segment count grows by one and \<^verbatim>\<open>armLength\<close> changes by the length given, so a
  negative length lowers it.
\<close>

theorem addSegment_nonpositive:
  assumes "len \<le> 0"
  shows "length (segments (addSegment s len ang)) = Suc (length (segments s))
         \<and> length_seg (last (segments (addSegment s len ang))) = len
         \<and> armLength (addSegment s len ang) = armLength s + len"
  by (simp add: addSegment_def Segment2D_init_def)

theorem addSegment_nonpositive_witness:
  "(- 5 :: real) \<le> 0
   \<and> length (segments (addSegment (FabrikSolver2D_init 0 0 (1 / 100)) (- 5) 0)) = 1
   \<and> length_seg (last (segments (addSegment (FabrikSolver2D_init 0 0 (1 / 100)) (- 5) 0))) = - 5
   \<and> armLength (addSegment (FabrikSolver2D_init 0 0 (1 / 100)) (- 5) 0) = - 5"
proof -
  have h: "(- 5 :: real) \<le> 0" by simp
  show ?thesis
    using h addSegment_nonpositive [OF h, of "FabrikSolver2D_init 0 0 (1 / 100)" 0]
    by (simp add: FabrikSolver2D_init_def)
qed

text \<open>
  The claim as stated fails: after \<^verbatim>\<open>addSegment(-5, 0)\<close> on a fresh solver the segment
  count and \<^verbatim>\<open>armLength\<close> both differ from their values before the call.
\<close>

theorem addSegment_negative_counterexample:
  "length (segments (addSegment (FabrikSolver2D_init 0 0 (1 / 100)) (- 5) 0))
     \<noteq> length (segments (FabrikSolver2D_init 0 0 (1 / 100)))
   \<and> armLength (addSegment (FabrikSolver2D_init 0 0 (1 / 100)) (- 5) 0)
     \<noteq> armLength (FabrikSolver2D_init 0 0 (1 / 100))"
  by (simp add: addSegment_def FabrikSolver2D_init_def Segment2D_init_def)

section \<open>Queries on a chain without segments\<close>

text \<open>
  Claim C8 (as the code has it). On a solver without segments \<^verbatim>\<open>inMarginOfError\<close>
  fails (\<^verbatim>\<open>self.segments[-1]\<close> raises \<^verbatim>\<open>IndexError\<close>), whereas \<^verbatim>\<open>compute\<close> does not
  fail: with \<^verbatim>\<open>armLength = 0\<close> no target is reachable, so it returns \<^verbatim>\<open>False\<close> before
  the margin is ever queried, and the state is unchanged.
\<close>

theorem empty_chain_queries:
  assumes "segments s = []" and "armLength s = 0"
  shows "inMarginOfError s targetX targetY = Inl IndexError
         \<and> compute s targetX targetY = Some (Inr (False, s))"
  using assms
  by (simp add: inMarginOfError_def compute_def isReachable_def linalg_norm_arr_diff
      euclid_dist_def not_less)

theorem empty_chain_queries_witness:
  "segments (FabrikSolver2D_init 0 0 (1 / 100)) = [] \<and> armLength (FabrikSolver2D_init 0 0 (1 / 100)) = 0
   \<and> inMarginOfError (FabrikSolver2D_init 0 0 (1 / 100)) 1 1 = Inl IndexError
   \<and> compute (FabrikSolver2D_init 0 0 (1 / 100)) 1 1 = Some (Inr (False, FabrikSolver2D_init 0 0 (1 / 100)))"
proof -
  have h1: "segments (FabrikSolver2D_init 0 0 (1 / 100)) = []"
    and h2: "armLength (FabrikSolver2D_init 0 0 (1 / 100)) = 0"
    by (simp_all add: FabrikSolver2D_init_def)
  show ?thesis
    using h1 h2 empty_chain_queries [OF h1 h2, of 1 1] by simp
qed

text \<open>
  The claim as stated fails for \<^verbatim>\<open>compute\<close>: on a fresh solver it returns \<^verbatim>\<open>False\<close>,
  it does not raise.
\<close>

theorem compute_empty_counterexample:
  "compute (FabrikSolver2D_init 0 0 (1 / 100)) 1 1 = Some (Inr (False, FabrikSolver2D_init 0 0 (1 / 100)))"
  by (simp add: compute_def isReachable_def linalg_norm_arr_diff FabrikSolver2D_init_def
      euclid_dist_def not_less)

section \<open>One pass on a single segment\<close>

text \<open>
  Claim C10. On a chain with exactly one segment, \<^verbatim>\<open>iterate\<close> sets the only joint to
  \<open>base + length * unit (joint - base)\<close>: the backward loop has no step, the forward loop
  takes the branch \<^verbatim>\<open>i == 0\<close>. The resulting state is the same for any two targets.
\<close>

theorem iterate_single_segment:
  assumes "segments s = [g]"
  shows "segments (iterate s targetX targetY) =
           [g\<lparr>point := vadd (vscale (unitVector (vsub (point g) (arr (basePoint s))))
                                   (length_seg g))
                           (arr (basePoint s))\<rparr>]
         \<and> iterate s targetX targetY = iterate s targetX' targetY'"
  using assms
  by (simp add: iterate_def backward_pass_def forward_pass_def forward_step_def)

theorem iterate_single_segment_witness:
  "segments one_segment_arm = [\<lparr>angle = 0, length_seg = 1, point = (Fin 1, Fin 0)\<rparr>]
   \<and> segments (iterate one_segment_arm (1 / 2) 0) =
       [\<lparr>angle = 0, length_seg = 1, point = (Fin 1, Fin 0)\<rparr>]
   \<and> iterate one_segment_arm (1 / 2) 0 = iterate one_segment_arm 7 (- 3)"
proof -
  have h: "segments one_segment_arm = [\<lparr>angle = 0, length_seg = 1, point = (Fin 1, Fin 0)\<rparr>]"
    by (simp add: one_segment_arm_eq)
  note w = iterate_single_segment [OF h, of "1 / 2" 0 7 "- 3"]
  show ?thesis
  proof (intro conjI)
    show "segments one_segment_arm = [\<lparr>angle = 0, length_seg = 1, point = (Fin 1, Fin 0)\<rparr>]"
      by (rule h)
    show "segments (iterate one_segment_arm (1 / 2) 0) =
       [\<lparr>angle = 0, length_seg = 1, point = (Fin 1, Fin 0)\<rparr>]"
      using w [THEN conjunct1]
      by (simp add: one_segment_arm_eq unitVector_def vsub_def vdiv_def vscale_def vadd_def
          arr_def)
    show "iterate one_segment_arm (1 / 2) 0 = iterate one_segment_arm 7 (- 3)"
      by (rule w [THEN conjunct2])
  qed
qed

section \<open>The convergence loop\<close>

text \<open>
  \<^verbatim>\<open>iterate\<close> changes joint positions only: the number of segments, the base point,
  \<^verbatim>\<open>armLength\<close> and \<^verbatim>\<open>marginOfError\<close> stay as they are.
\<close>

lemma length_backward_step [simp]: "length (backward_step target i segs) = length segs"
  by (simp add: backward_step_def)

lemma length_forward_step [simp]: "length (forward_step base target i segs) = length segs"
  by (simp add: forward_step_def)

lemma length_fold_backward_step [simp]:
  "length (fold (backward_step target) is segs) = length segs"
  by (induction "is" arbitrary: segs) simp_all

lemma length_fold_forward_step [simp]:
  "length (fold (forward_step base target) is segs) = length segs"
  by (induction "is" arbitrary: segs) simp_all

lemma length_segments_iterate [simp]:
  "length (segments (iterate s targetX targetY)) = length (segments s)"
  by (simp add: iterate_def Let_def backward_pass_def forward_pass_def)

lemma iterate_fields [simp]:
  "basePoint (iterate s targetX targetY) = basePoint s"
  "armLength (iterate s targetX targetY) = armLength s"
  "marginOfError (iterate s targetX targetY) = marginOfError s"
  by (simp_all add: iterate_def Let_def)

lemma iterate_n_0 [simp]: "iterate_n 0 s targetX targetY = s"
  by (simp add: iterate_n_def)

lemma iterate_n_Suc:
  "iterate_n (Suc n) s targetX targetY = iterate_n n (iterate s targetX targetY) targetX targetY"
  by (simp only: iterate_n_def funpow_Suc_right o_apply)

lemma iterate_n_fields [simp]:
  "length (segments (iterate_n n s targetX targetY)) = length (segments s)"
  "basePoint (iterate_n n s targetX targetY) = basePoint s"
  "armLength (iterate_n n s targetX targetY) = armLength s"
  "marginOfError (iterate_n n s targetX targetY) = marginOfError s"
  by (induction n arbitrary: s) (simp_all add: iterate_n_Suc)

text \<open>
  The loop of \<^verbatim>\<open>compute\<close> returns after \<open>n\<close> passes when the \<open>n\<close>-th state is the first
  one within the margin, and it never returns when no state is.
\<close>

lemma inMarginOfError_Inl_iff:
  "inMarginOfError s targetX targetY = Inl e \<longleftrightarrow> segments s = []"
  by (cases e) (simp add: inMarginOfError_def)

lemma compute_loop_reaches:
  assumes "inMarginOfError (iterate_n n s targetX targetY) targetX targetY = Inr True"
    and "\<forall>m<n. inMarginOfError (iterate_n m s targetX targetY) targetX targetY = Inr False"
  shows "compute_loop s targetX targetY = Some (Inr (iterate_n n s targetX targetY))"
  using assms
proof (induction n arbitrary: s)
  case 0
  then show ?case by (subst compute_loop.simps) simp
next
  case (Suc n)
  from Suc.prems(2) have first: "inMarginOfError s targetX targetY = Inr False"
    by (metis iterate_n_0 zero_less_Suc)
  have rest: "\<forall>m<n. inMarginOfError (iterate_n m (iterate s targetX targetY) targetX targetY)
                 targetX targetY = Inr False"
    using Suc.prems(2) by (simp add: iterate_n_Suc [symmetric])
  have "compute_loop (iterate s targetX targetY) targetX targetY
          = Some (Inr (iterate_n n (iterate s targetX targetY) targetX targetY))"
    using Suc.prems(1) rest by (intro Suc.IH) (simp_all add: iterate_n_Suc)
  then show ?case
    by (subst compute_loop.simps) (simp add: first iterate_n_Suc)
qed

lemma compute_loop_empty:
  "segments s = [] \<Longrightarrow> compute_loop s targetX targetY = Some (Inl IndexError)"
  by (subst compute_loop.simps) (simp add: inMarginOfError_def)

lemma compute_loop_Some:
  assumes "compute_loop s targetX targetY = Some r"
  shows "case r of
           Inl e \<Rightarrow> segments s = []
         | Inr s' \<Rightarrow> \<exists>n. s' = iterate_n n s targetX targetY
               \<and> inMarginOfError s' targetX targetY = Inr True
               \<and> (\<forall>m<n. inMarginOfError (iterate_n m s targetX targetY) targetX targetY
                          = Inr False)"
proof -
  let ?P = "\<lambda>s tx ty r. case r of
           Inl e \<Rightarrow> segments s = []
         | Inr s' \<Rightarrow> \<exists>n. s' = iterate_n n s tx ty
               \<and> inMarginOfError s' tx ty = Inr True
               \<and> (\<forall>m<n. inMarginOfError (iterate_n m s tx ty) tx ty = Inr False)"
  have "?P s targetX targetY r"
  proof (rule compute_loop.raw_induct [where P = ?P, OF _ assms])
    fix loop :: "FabrikSolver2D \<Rightarrow> real \<Rightarrow> real \<Rightarrow> (error + FabrikSolver2D) option"
    fix s tx ty r
    assume IH: "\<And>s tx ty r. loop s tx ty = Some r \<Longrightarrow> ?P s tx ty r"
    assume eq: "(case inMarginOfError s tx ty of
                   Inl e \<Rightarrow> Some (Inl e)
                 | Inr done_now \<Rightarrow>
                     if \<not> done_now then loop (iterate s tx ty) tx ty else Some (Inr s)) = Some r"
    show "?P s tx ty r"
    proof (cases "inMarginOfError s tx ty")
      case (Inl e)
      with eq have "r = Inl e" by simp
      with Inl show ?thesis by (simp add: inMarginOfError_Inl_iff)
    next
      case (Inr b)
      show ?thesis
      proof (cases b)
        case True
        with Inr eq have "r = Inr s" by simp
        then show ?thesis using Inr True by (auto intro!: exI [of _ 0])
      next
        case False
        with Inr eq have call: "loop (iterate s tx ty) tx ty = Some r" by simp
        note ih = IH [OF call]
        show ?thesis
        proof (cases r)
          case (Inl e)
          with ih have "segments (iterate s tx ty) = []" by simp
          then have "length (segments s) = 0" by (metis length_segments_iterate list.size(3))
          with Inl show ?thesis by simp
        next
          case r: (Inr s')
          with ih obtain n where n: "s' = iterate_n n (iterate s tx ty) tx ty"
            "inMarginOfError s' tx ty = Inr True"
            "\<forall>m<n. inMarginOfError (iterate_n m (iterate s tx ty) tx ty) tx ty = Inr False"
            by auto
          have "\<forall>m<Suc n. inMarginOfError (iterate_n m s tx ty) tx ty = Inr False"
          proof (intro allI impI)
            fix m assume "m < Suc n"
            then show "inMarginOfError (iterate_n m s tx ty) tx ty = Inr False"
              using n(3) Inr False by (cases m) (simp_all add: iterate_n_Suc)
          qed
          moreover have "s' = iterate_n (Suc n) s tx ty" using n(1) by (simp add: iterate_n_Suc)
          ultimately show ?thesis using n(2) r by auto
        qed
      qed
    qed
  qed
  then show ?thesis .
qed

lemma compute_loop_None_iff:
  "compute_loop s targetX targetY = None \<longleftrightarrow>
     (\<forall>n. inMarginOfError (iterate_n n s targetX targetY) targetX targetY = Inr False)"
proof
  assume none: "compute_loop s targetX targetY = None"
  show "\<forall>n. inMarginOfError (iterate_n n s targetX targetY) targetX targetY = Inr False"
  proof (rule ccontr)
    assume "\<not> ?thesis"
    then have ex: "\<exists>n. inMarginOfError (iterate_n n s targetX targetY) targetX targetY
                     \<noteq> Inr False" by simp
    define k where "k = (LEAST n. inMarginOfError (iterate_n n s targetX targetY) targetX targetY
                     \<noteq> Inr False)"
    have k: "inMarginOfError (iterate_n k s targetX targetY) targetX targetY \<noteq> Inr False"
      unfolding k_def using ex by (rule LeastI_ex)
    have below: "\<forall>m<k. inMarginOfError (iterate_n m s targetX targetY) targetX targetY
                          = Inr False"
      unfolding k_def using not_less_Least by blast
    show False
    proof (cases "inMarginOfError (iterate_n k s targetX targetY) targetX targetY")
      case (Inl e)
      then have "length (segments s) = 0"
        using inMarginOfError_Inl_iff [of "iterate_n k s targetX targetY" targetX targetY e]
        by (metis iterate_n_fields(1) list.size(3))
      then show False using none by (simp add: compute_loop_empty)
    next
      case (Inr b)
      with k have "b" by (cases b) simp_all
      with Inr below none show False by (simp add: compute_loop_reaches)
    qed
  qed
next
  assume never: "\<forall>n. inMarginOfError (iterate_n n s targetX targetY) targetX targetY = Inr False"
  show "compute_loop s targetX targetY = None"
  proof (cases "compute_loop s targetX targetY")
    case None
    then show ?thesis .
  next
    case (Some r)
    from compute_loop_Some [OF Some] never show ?thesis
    proof (cases r)
      case (Inl e)
      with compute_loop_Some [OF Some] have "segments s = []" by simp
      with never [rule_format, of 0] show ?thesis by (simp add: inMarginOfError_def)
    next
      case (Inr s')
      with compute_loop_Some [OF Some] never show ?thesis by auto
    qed
  qed
qed

section \<open>Passes on concrete chains\<close>

lemma two_segment_arm_eq:
  "two_segment_arm = \<lparr>basePoint = (0, 0),
      segments = [\<lparr>angle = 0, length_seg = 1, point = (Fin 1, Fin 0)\<rparr>,
                  \<lparr>angle = 0, length_seg = 1, point = (Fin 2, Fin 0)\<rparr>],
      armLength = 2, marginOfError = 1 / 100\<rparr>"
  by (simp add: two_segment_arm_def addSegment_def FabrikSolver2D_init_def Segment2D_init_def
      radians_def)

lemmas pass_defs = iterate_def Let_def backward_pass_def forward_pass_def backward_step_def
  forward_step_def unitVector_def vsub_def vdiv_def vscale_def vadd_def arr_def

lemma upt_0_2: "[0..<2] = [0, Suc 0]"
  by (simp add: upt_rec)

lemma upt_0_3: "[0..<3] = [0, Suc 0, 2]"
  by (simp add: upt_rec)

lemma upt_1_3: "[Suc 0..<3] = [Suc 0, 2]"
  by (simp add: upt_rec)

lemma iterate_one_segment_arm: "iterate one_segment_arm targetX targetY = one_segment_arm"
  by (simp add: one_segment_arm_eq pass_defs)

lemma iterate_two_segment_arm:
  "iterate two_segment_arm 1 1 = \<lparr>basePoint = (0, 0),
      segments = [\<lparr>angle = 0, length_seg = 1, point = (Fin 1, Fin 0)\<rparr>,
                  \<lparr>angle = 0, length_seg = 1, point = (Fin 1, Fin 1)\<rparr>],
      armLength = 2, marginOfError = 1 / 100\<rparr>"
  by (simp add: two_segment_arm_eq pass_defs upt_0_2)

lemma iterate_scenario_arm: "iterate scenario_arm 200 0 = scenario_folded"
  by (simp add: scenario_arm_eq scenario_folded_def pass_defs upt_0_3 upt_1_3)

lemma iterate_scenario_folded: "iterate scenario_folded 200 0 = scenario_folded"
  by (simp add: scenario_folded_def pass_defs upt_0_3 upt_1_3)


lemma iterate_n_fixed:
  assumes "iterate s targetX targetY = s"
  shows "iterate_n n s targetX targetY = s"
  by (induction n) (simp_all add: iterate_n_Suc assms)

lemma compute_loop_fixed_point:
  assumes "iterate s targetX targetY = s"
    and "inMarginOfError s targetX targetY = Inr False"
  shows "compute_loop s targetX targetY = None"
  by (simp add: compute_loop_None_iff iterate_n_fixed [OF assms(1)] assms(2))

lemma inMargin_two_segment_arm:
  "inMarginOfError two_segment_arm 1 1 = Inr False"
  "inMarginOfError (iterate two_segment_arm 1 1) 1 1 = Inr True"
proof -
  have "1 \<le> sqrt 2" by simp
  then have "\<not> sqrt 2 * 100 < 1" by linarith
  then show "inMarginOfError two_segment_arm 1 1 = Inr False"
    by (simp add: two_segment_arm_eq inMarginOfError_def vsub_def arr_def)
  show "inMarginOfError (iterate two_segment_arm 1 1) 1 1 = Inr True"
    by (simp add: iterate_two_segment_arm inMarginOfError_def vsub_def arr_def)
qed

section \<open>Convergence and termination of \<^verbatim>\<open>compute\<close>\<close>

lemma sqrt_quarter: "sqrt (1 / 4) = 1 / 2"
  by (simp add: real_sqrt_divide)

lemma iterate_two_segment_arm_axis: "iterate two_segment_arm (3 / 2) 0 = two_segment_arm"
  by (simp add: two_segment_arm_eq pass_defs upt_0_2 sqrt_quarter)

text \<open>
  Claim C2 fails on the code. The chain of two segments of length 1, stretched along the
  X axis, and the target \<open>(3/2, 0)\<close>: the target is strictly inside the reachable disk
  (distance \<open>3/2 < 2\<close>), and the arm can attain it (the first joint at
  \<open>(3/4, sqrt 7 / 4)\<close> is at distance 1 from the base point and from the target). A pass
  of \<^verbatim>\<open>iterate\<close> nevertheless leaves the joints at \<open>(1, 0)\<close> and \<open>(2, 0)\<close>, the last one
  at distance \<open>1/2\<close> from the target, so the loop of \<^verbatim>\<open>compute\<close> never ends: the call
  does not return \<^verbatim>\<open>True\<close>, it does not return at all.
\<close>

theorem compute_two_segment_hangs:
  "segments two_segment_arm \<noteq> []
   \<and> euclid_dist (basePoint two_segment_arm) (3 / 2, 0) < armLength two_segment_arm
   \<and> euclid_dist (basePoint two_segment_arm) (3 / 4, sqrt 7 / 4) = 1
   \<and> euclid_dist (3 / 4, sqrt 7 / 4) (3 / 2, 0) = 1
   \<and> compute two_segment_arm (3 / 2) 0 = None"
proof -
  have d: "sqrt (9 / 4) = 3 / 2"
    by (rule real_sqrt_unique) (simp_all add: power2_eq_square)
  have p: "(3 / 4)\<^sup>2 + (sqrt 7 / 4)\<^sup>2 = (1::real)"
    by (simp add: power2_eq_square)
  have m: "inMarginOfError two_segment_arm (3 / 2) 0 = Inr False"
    by (simp add: two_segment_arm_eq inMarginOfError_def vsub_def arr_def sqrt_quarter)
  have r: "isReachable two_segment_arm (3 / 2) 0"
    by (simp add: two_segment_arm_eq isReachable_def vsub_def arr_def d)
  have "compute_loop two_segment_arm (3 / 2) 0 = None"
    using iterate_two_segment_arm_axis m by (rule compute_loop_fixed_point)
  with r have c: "compute two_segment_arm (3 / 2) 0 = None"
    by (simp add: compute_def)
  have e1: "euclid_dist (basePoint two_segment_arm) (3 / 2, 0) < armLength two_segment_arm"
    by (simp add: two_segment_arm_eq euclid_dist_def d)
  have e2: "euclid_dist (basePoint two_segment_arm) (3 / 4, sqrt 7 / 4) = 1"
    using p by (simp add: two_segment_arm_eq euclid_dist_def)
  have e3: "euclid_dist (3 / 4, sqrt 7 / 4) (3 / 2, 0) = 1"
    using p by (simp add: euclid_dist_def power2_eq_square)
  show ?thesis using c e1 e2 e3 by (simp add: two_segment_arm_eq)
qed

text \<open>
  Claim C3 fails on the code. The loop of \<^verbatim>\<open>compute\<close> has no iteration cutoff. On the arm
  of the visualizer, fully extended along the X axis, with the target \<open>(200, 0)\<close> on that
  axis, the first pass folds the last segment back to \<open>(170, 0)\<close>, every further pass
  reproduces that pose, 30 away from the target, and the call never returns.
\<close>

theorem compute_scenario_counterexample:
  "isReachable scenario_arm 200 0
   \<and> iterate scenario_arm 200 0 = scenario_folded
   \<and> iterate scenario_folded 200 0 = scenario_folded
   \<and> inMarginOfError scenario_folded 200 0 = Inr False
   \<and> compute scenario_arm 200 0 = None"
proof -
  have r: "isReachable scenario_arm 200 0"
    by (simp add: scenario_arm_eq isReachable_def vsub_def arr_def)
  have m0: "inMarginOfError scenario_arm 200 0 = Inr False"
    by (simp add: scenario_arm_eq inMarginOfError_def vsub_def arr_def)
  have m1: "inMarginOfError scenario_folded 200 0 = Inr False"
    by (simp add: scenario_folded_def inMarginOfError_def vsub_def arr_def)
  have "compute_loop scenario_folded 200 0 = None"
    using iterate_scenario_folded m1 by (rule compute_loop_fixed_point)
  then have "compute_loop scenario_arm 200 0 = None"
    by (subst compute_loop.simps) (simp add: m0 iterate_scenario_arm)
  with r have "compute scenario_arm 200 0 = None" by (simp add: compute_def)
  with r m1 iterate_scenario_arm iterate_scenario_folded show ?thesis by simp
qed

section \<open>Degenerate geometry\<close>

text \<open>
  Over the reals the norm of a vector is \<open>0\<close> only for the zero vector, and on the zero
  vector \<^verbatim>\<open>unitVector\<close> divides \<open>0\<close> by \<open>0\<close>: both components of its result are \<open>NaN\<close>.
\<close>

lemma linalg_norm_zero_iff:
  "linalg_norm (Fin x, Fin y) = Fin 0 \<longleftrightarrow> x = 0 \<and> y = 0"
  by (simp add: real_sqrt_eq_zero_cancel_iff sum_squares_eq_zero_iff)

lemma unitVector_zero: "unitVector (Fin 0, Fin 0) = (NaN, NaN)"
  by (simp add: unitVector_def vdiv_def)

lemma iterate_scenario_arm_joint: "iterate scenario_arm 270 0 = scenario_nan"
  by (simp add: scenario_arm_eq scenario_nan_def pass_defs upt_0_3 upt_1_3)

lemma iterate_scenario_nan: "iterate scenario_nan 270 0 = scenario_nan"
  by (simp add: scenario_nan_def pass_defs upt_0_3 upt_1_3)

text \<open>
  Claim C7 fails on the code. \<^verbatim>\<open>unitVector\<close> has no test for a zero vector and
  \<^verbatim>\<open>iterate\<close> has no fallback. On the arm of the visualizer, extended along the X axis,
  with the target on its second joint \<open>(270, 0)\<close>, the first step of the backward loop
  normalises \<open>joint - target = (0, 0)\<close>: the result is \<open>(NaN, NaN)\<close>, it is stored as the
  joint position, and the rest of the pass spreads it to every joint. No comparison with
  \<open>NaN\<close> is true, so the last joint is never within the margin, every further pass
  leaves the joints at \<open>NaN\<close>, and \<^verbatim>\<open>compute\<close> never returns.
\<close>

theorem compute_degenerate_scenario:
  "isReachable scenario_arm 270 0
   \<and> point (segments scenario_arm ! 1) = arr (270, 0)
   \<and> unitVector (vsub (point (segments scenario_arm ! 1)) (arr (270, 0))) = (NaN, NaN)
   \<and> map point (segments (iterate scenario_arm 270 0)) = [(NaN, NaN), (NaN, NaN), (NaN, NaN)]
   \<and> iterate (iterate scenario_arm 270 0) 270 0 = iterate scenario_arm 270 0
   \<and> compute scenario_arm 270 0 = None"
proof -
  have r: "isReachable scenario_arm 270 0"
    by (simp add: scenario_arm_eq isReachable_def vsub_def arr_def)
  have j: "point (segments scenario_arm ! 1) = arr (270, 0)"
    by (simp add: scenario_arm_eq arr_def)
  have u: "unitVector (vsub (point (segments scenario_arm ! 1)) (arr (270, 0))) = (NaN, NaN)"
    by (simp add: scenario_arm_eq unitVector_def vsub_def vdiv_def arr_def)
  have m0: "inMarginOfError scenario_arm 270 0 = Inr False"
    by (simp add: scenario_arm_eq inMarginOfError_def vsub_def arr_def)
  have m1: "inMarginOfError scenario_nan 270 0 = Inr False"
    by (simp add: scenario_nan_def inMarginOfError_def vsub_def arr_def)
  have "compute_loop scenario_nan 270 0 = None"
    using iterate_scenario_nan m1 by (rule compute_loop_fixed_point)
  then have "compute_loop scenario_arm 270 0 = None"
    by (subst compute_loop.simps) (simp add: m0 iterate_scenario_arm_joint)
  with r have c: "compute scenario_arm 270 0 = None" by (simp add: compute_def)
  have p: "map point (segments (iterate scenario_arm 270 0)) = [(NaN, NaN), (NaN, NaN), (NaN, NaN)]"
    by (simp add: iterate_scenario_arm_joint scenario_nan_def)
  show ?thesis
    using r j u c p by (simp add: iterate_scenario_arm_joint iterate_scenario_nan)
qed

section \<open>Segment lengths after a pass\<close>

text \<open>
  A joint that a step places at \<open>unit w * l + q\<close> is at distance \<open>\<bar>l\<bar>\<close> from \<open>q\<close>, as soon
  as the result is a pair of numbers: \<open>w\<close> was then neither zero nor \<open>NaN\<close>, and \<open>q\<close> is a
  pair of numbers too.
\<close>

lemma unit_scaled_norm:
  fixes a b l :: real
  assumes "sqrt (a * a + b * b) \<noteq> 0"
  shows "sqrt ((a / sqrt (a * a + b * b) * l)\<^sup>2 + (b / sqrt (a * a + b * b) * l)\<^sup>2) = \<bar>l\<bar>"
proof -
  define n where "n = sqrt (a * a + b * b)"
  have nz: "n \<noteq> 0" using assms by (simp add: n_def)
  have n2: "n\<^sup>2 = a * a + b * b"
    by (simp add: n_def power2_eq_square [symmetric])
  have "(a / n * l)\<^sup>2 + (b / n * l)\<^sup>2 = (a * a + b * b) * l\<^sup>2 / n\<^sup>2"
    using nz by (simp add: power2_eq_square field_simps)
  also have "\<dots> = n\<^sup>2 * l\<^sup>2 / n\<^sup>2"
    by (simp only: n2)
  also have "\<dots> = l\<^sup>2"
    using nz by simp
  finally have "sqrt ((a / n * l)\<^sup>2 + (b / n * l)\<^sup>2) = \<bar>l\<bar>" by simp
  then show ?thesis by (simp only: n_def)
qed

lemma placed_dist:
  assumes "vadd (vscale (unitVector w) l) q = arr p"
  shows "\<exists>q'. q = arr q' \<and> euclid_dist p q' = \<bar>l\<bar>"
proof -
  obtain w1 w2 q1 q2 where w: "w = (w1, w2)" and q: "q = (q1, q2)"
    by (cases w, cases q) auto
  from assms obtain a b c d where f: "w1 = Fin a" "w2 = Fin b" "q1 = Fin c" "q2 = Fin d"
    by (cases w1; cases w2; cases q1; cases q2)
       (simp_all add: w q vadd_def vscale_def unitVector_def vdiv_def arr_def)
  from assms have nz: "sqrt (a * a + b * b) \<noteq> 0"
    by (auto simp: w q f vadd_def vscale_def unitVector_def vdiv_def arr_def split: if_splits)
  from assms nz have p: "fst p = a / sqrt (a * a + b * b) * l + c"
    "snd p = b / sqrt (a * a + b * b) * l + d"
    by (auto simp: w q f vadd_def vscale_def unitVector_def vdiv_def arr_def split: if_splits)
  have "euclid_dist p (c, d) = \<bar>l\<bar>"
    using unit_scaled_norm [OF nz, of l] by (simp add: euclid_dist_def p)
  moreover have "q = arr (c, d)" by (simp add: q f arr_def)
  ultimately show ?thesis by blast
qed

lemma fmul_neg_one: "fmul (fmul v (Fin l)) (Fin (- 1)) = fmul v (Fin (- l))"
  by (cases v) simp_all

lemma placed_dist_neg:
  assumes "vadd (vscale (vscale (unitVector w) l) (- 1)) q = arr p"
  shows "\<exists>q'. q = arr q' \<and> euclid_dist p q' = \<bar>l\<bar>"
proof -
  have "vscale (vscale (unitVector w) l) (- 1) = vscale (unitVector w) (- l)"
    by (simp add: vscale_def fmul_neg_one)
  with assms have "vadd (vscale (unitVector w) (- l)) q = arr p" by simp
  from placed_dist [OF this] show ?thesis by simp
qed


text \<open>
  The passes assign joint positions only; the length stored in a segment is never changed.
\<close>

lemma forward_step_nth_other:
  "j \<noteq> i \<Longrightarrow> forward_step base target i segs ! j = segs ! j"
  by (simp add: forward_step_def)

lemma length_seg_point_update:
  "length_seg (segs[i := (segs ! i)\<lparr>point := v\<rparr>] ! j) = length_seg (segs ! j)"
  by (cases "j = i"; cases "i < length segs") (simp_all add: list_update_beyond)

lemma forward_step_length_seg:
  "length_seg (forward_step base target i segs ! j) = length_seg (segs ! j)"
  by (simp add: forward_step_def length_seg_point_update)

lemma backward_step_length_seg:
  "length_seg (backward_step target i segs ! j) = length_seg (segs ! j)"
  by (simp add: backward_step_def length_seg_point_update)

lemma fold_backward_length_seg:
  "length_seg (fold (backward_step target) is segs ! j) = length_seg (segs ! j)"
  by (induction "is" arbitrary: segs) (simp_all add: backward_step_length_seg)

lemma fold_forward_length_seg:
  "length_seg (fold (forward_step base target) is segs ! j) = length_seg (segs ! j)"
  by (induction "is" arbitrary: segs) (simp_all add: forward_step_length_seg)

lemma iterate_length_seg:
  "length_seg (segments (iterate s targetX targetY) ! i) = length_seg (segments s ! i)"
  by (simp add: iterate_def Let_def forward_pass_def backward_pass_def
      fold_forward_length_seg fold_backward_length_seg)

lemma iterate_n_length_seg:
  "length_seg (segments (iterate_n n s targetX targetY) ! i) = length_seg (segments s ! i)"
  by (induction n arbitrary: s) (simp_all add: iterate_n_Suc iterate_length_seg)

text \<open>
  The forward loop, after its first \<open>k\<close> steps: the segments from \<open>k\<close> on are untouched,
  and each of the first \<open>k\<close> joints that is a pair of numbers is at the distance of its
  segment's length from its predecessor (the base point for the first one).
\<close>

lemma forward_step_placed:
  assumes "i < length segs"
    and "point (forward_step base target i segs ! i) = arr p"
  shows "\<exists>q. (if i = 0 then base else point (segs ! (i - 1))) = arr q
           \<and> euclid_dist p q = \<bar>length_seg (segs ! i)\<bar>"
proof (cases "i = 0")
  case True
  with assms have "vadd (vscale (unitVector (vsub (point (segs ! 0)) base))
                     (length_seg (segs ! 0))) base = arr p"
    by (simp add: forward_step_def)
  from placed_dist [OF this] True show ?thesis by simp
next
  case False
  show ?thesis
  proof (cases "i = length segs - 1")
    case True
    with False assms have "vadd (vscale (vscale (unitVector (vsub (point (segs ! (i - 1))) target))
                     (length_seg (segs ! i))) (- 1)) (point (segs ! (i - 1))) = arr p"
      by (simp add: forward_step_def)
    from placed_dist_neg [OF this] False show ?thesis by simp
  next
    case last: False
    with False assms have "vadd (vscale (unitVector (vsub (point (segs ! i)) (point (segs ! (i - 1)))))
                     (length_seg (segs ! i))) (point (segs ! (i - 1))) = arr p"
      by (simp add: forward_step_def)
    from placed_dist [OF this] False show ?thesis by simp
  qed
qed

lemma forward_fold_inv:
  assumes "k \<le> length segs"
  shows "(\<forall>j\<ge>k. fold (forward_step base target) [0..<k] segs ! j = segs ! j)
       \<and> (\<forall>j<k. \<forall>p. point (fold (forward_step base target) [0..<k] segs ! j) = arr p \<longrightarrow>
            (\<exists>q. (if j = 0 then base
                   else point (fold (forward_step base target) [0..<k] segs ! (j - 1))) = arr q
                \<and> euclid_dist p q = \<bar>length_seg (segs ! j)\<bar>))"
  using assms
proof (induction k)
  case 0
  show ?case by simp
next
  case (Suc k)
  define r0 where "r0 = fold (forward_step base target) [0..<k] segs"
  define r where "r = forward_step base target k r0"
  have r: "fold (forward_step base target) [0..<Suc k] segs = r"
    by (simp add: r_def r0_def)
  from Suc.prems have k: "k < length segs" by simp
  from k have le: "k \<le> length segs" by simp
  note ih = Suc.IH [OF le, folded r0_def]
  have keep: "\<forall>j\<ge>k. r0 ! j = segs ! j"
    using ih by blast
  have inv: "\<forall>j<k. \<forall>p. point (r0 ! j) = arr p \<longrightarrow>
            (\<exists>q. (if j = 0 then base else point (r0 ! (j - 1))) = arr q
                \<and> euclid_dist p q = \<bar>length_seg (segs ! j)\<bar>)"
    using ih by blast
  have len: "length r0 = length segs" by (simp add: r0_def)
  have other: "\<And>j. j \<noteq> k \<Longrightarrow> r ! j = r0 ! j"
    by (simp add: r_def forward_step_nth_other)
  have p1: "\<forall>j\<ge>Suc k. r ! j = segs ! j"
    using keep other by simp
  have p2: "\<forall>j<Suc k. \<forall>p. point (r ! j) = arr p \<longrightarrow>
            (\<exists>q. (if j = 0 then base else point (r ! (j - 1))) = arr q
                \<and> euclid_dist p q = \<bar>length_seg (segs ! j)\<bar>)"
  proof (intro allI impI)
    fix j p
    assume j: "j < Suc k" and fin: "point (r ! j) = arr p"
    show "\<exists>q. (if j = 0 then base else point (r ! (j - 1))) = arr q
                \<and> euclid_dist p q = \<bar>length_seg (segs ! j)\<bar>"
    proof (cases "j = k")
      case True
      have "point (forward_step base target k r0 ! k) = arr p"
        using fin True by (simp add: r_def)
      from forward_step_placed [of k r0, OF _ this] k len
      obtain q where q: "(if k = 0 then base else point (r0 ! (k - 1))) = arr q"
        "euclid_dist p q = \<bar>length_seg (r0 ! k)\<bar>"
        by auto
      have e: "r0 ! k = segs ! k" using keep by simp
      have o: "k \<noteq> 0 \<Longrightarrow> r ! (k - 1) = r0 ! (k - 1)"
        by (rule other) simp
      have "(if j = 0 then base else point (r ! (j - 1))) = arr q"
        using q(1) o True by (cases "k = 0") simp_all
      moreover have "euclid_dist p q = \<bar>length_seg (segs ! j)\<bar>"
        using q(2) e True by simp
      ultimately show ?thesis by blast
    next
      case False
      with j have jk: "j < k" by simp
      then have same: "r ! j = r0 ! j" "r ! (j - 1) = r0 ! (j - 1)"
        by (simp_all add: other)
      from fin have "point (r0 ! j) = arr p" by (simp only: same)
      with inv jk show ?thesis unfolding same by blast
    qed
  qed
  show ?case unfolding r using p1 p2 by blast
qed

lemma iterate_joint_dist:
  assumes "i < length (segments s)"
    and "point (segments (iterate s targetX targetY) ! i) = arr p"
  shows "\<exists>q. (if i = 0 then arr (basePoint s)
              else point (segments (iterate s targetX targetY) ! (i - 1))) = arr q
           \<and> euclid_dist p q = \<bar>length_seg (segments s ! i)\<bar>"
proof -
  define segs where "segs = backward_pass (arr (targetX, targetY)) (segments s)"
  have len: "length segs = length (segments s)"
    by (simp add: segs_def backward_pass_def)
  have it: "segments (iterate s targetX targetY)
              = fold (forward_step (arr (basePoint s)) (arr (targetX, targetY))) [0..<length segs] segs"
    by (simp add: iterate_def Let_def forward_pass_def segs_def)
  have ls: "length_seg (segs ! i) = length_seg (segments s ! i)"
    by (simp add: segs_def backward_pass_def fold_backward_length_seg)
  let ?r = "fold (forward_step (arr (basePoint s)) (arr (targetX, targetY))) [0..<length segs] segs"
  have i: "i < length segs" using assms(1) len by simp
  have fin: "point (?r ! i) = arr p" using assms(2) by (simp only: it)
  have "\<forall>j<length segs. \<forall>p. point (?r ! j) = arr p \<longrightarrow>
            (\<exists>q. (if j = 0 then arr (basePoint s) else point (?r ! (j - 1))) = arr q
                \<and> euclid_dist p q = \<bar>length_seg (segs ! j)\<bar>)"
    using forward_fold_inv [OF le_refl] by blast
  with i fin obtain q where "(if i = 0 then arr (basePoint s) else point (?r ! (i - 1))) = arr q"
    and "euclid_dist p q = \<bar>length_seg (segs ! i)\<bar>"
    by blast
  then show ?thesis unfolding it ls by blast
qed


lemma iterate_n_Suc_last:
  "iterate_n (Suc n) s targetX targetY = iterate (iterate_n n s targetX targetY) targetX targetY"
  by (simp add: iterate_n_def)

lemma get_joint_positions_nth:
  "i < length (segments s) \<Longrightarrow> get_joint_positions s ! Suc i = point (segments s ! i)"
  "i \<le> length (segments s) \<Longrightarrow>
     get_joint_positions s ! i = (if i = 0 then arr (basePoint s) else point (segments s ! (i - 1)))"
  by (simp_all add: get_joint_positions_def nth_Cons')

lemma iterate_joint_positions_dist:
  assumes "i < length (segments s)"
    and "get_joint_positions (iterate s targetX targetY) ! Suc i = arr p"
  shows "\<exists>q. get_joint_positions (iterate s targetX targetY) ! i = arr q
           \<and> euclid_dist p q = \<bar>length_seg (segments s ! i)\<bar>"
proof -
  have "point (segments (iterate s targetX targetY) ! i) = arr p"
    using assms by (simp add: get_joint_positions_nth(1))
  from iterate_joint_dist [OF assms(1) this] obtain q
    where q: "(if i = 0 then arr (basePoint s)
               else point (segments (iterate s targetX targetY) ! (i - 1))) = arr q"
      and d: "euclid_dist p q = \<bar>length_seg (segments s ! i)\<bar>"
    by blast
  have "get_joint_positions (iterate s targetX targetY) ! i = arr q"
    using assms(1) q by (auto simp: get_joint_positions_nth(2) split: if_splits)
  with d show ?thesis by blast
qed

text \<open>
  Claim C1. Take a segment \<open>i\<close> of the chain, of length \<open>\<ge> 0\<close>, and a state \<open>s'\<close> that is
  the result of a call of \<^verbatim>\<open>iterate\<close>, or the state in which a call of \<^verbatim>\<open>compute\<close> that
  changed the state returns. If the joint of segment \<open>i\<close> in \<open>s'\<close> is a pair of numbers
  (no normalisation of a zero vector has turned it into \<open>NaN\<close>), then so is its
  predecessor in \<^verbatim>\<open>get_joint_positions\<close> (the base point for the first segment), the
  Euclidean distance between the two is exactly the length of segment \<open>i\<close>, and that
  length is the one the segment had before the call.
\<close>

theorem pass_keeps_lengths:
  assumes "i < length (segments s)"
    and "0 \<le> length_seg (segments s ! i)"
    and "s' = iterate s targetX targetY
         \<or> (compute s targetX targetY = Some (Inr (True, s')) \<and> s' \<noteq> s)"
    and "get_joint_positions s' ! Suc i = arr p"
  shows "length_seg (segments s' ! i) = length_seg (segments s ! i)
         \<and> (\<exists>q. get_joint_positions s' ! i = arr q
                \<and> euclid_dist p q = length_seg (segments s ! i))"
proof -
  have "\<exists>s0. s' = iterate s0 targetX targetY
          \<and> length (segments s0) = length (segments s)
          \<and> length_seg (segments s0 ! i) = length_seg (segments s ! i)"
    using assms(3)
  proof
    assume "s' = iterate s targetX targetY"
    then show ?thesis by blast
  next
    assume c: "compute s targetX targetY = Some (Inr (True, s')) \<and> s' \<noteq> s"
    then have "compute_loop s targetX targetY = Some (Inr s')"
      by (auto simp: compute_def split: if_splits option.splits sum.splits)
    from compute_loop_Some [OF this] obtain n where n: "s' = iterate_n n s targetX targetY"
      by auto
    with c obtain m where "n = Suc m" by (cases n) simp_all
    with n have "s' = iterate (iterate_n m s targetX targetY) targetX targetY"
      by (simp only: iterate_n_Suc_last)
    then show ?thesis
      using iterate_n_fields(1) iterate_n_length_seg by blast
  qed
  then obtain s0 where s0: "s' = iterate s0 targetX targetY"
    and len: "length (segments s0) = length (segments s)"
    and ls: "length_seg (segments s0 ! i) = length_seg (segments s ! i)"
    by blast
  have i: "i < length (segments s0)" using assms(1) len by simp
  have fin: "get_joint_positions (iterate s0 targetX targetY) ! Suc i = arr p"
    using assms(4) s0 by simp
  from iterate_joint_positions_dist [OF i fin] obtain q
    where q: "get_joint_positions s' ! i = arr q"
      and d: "euclid_dist p q = \<bar>length_seg (segments s0 ! i)\<bar>"
    unfolding s0 by blast
  have kept: "length_seg (segments s' ! i) = length_seg (segments s ! i)"
    by (simp add: s0 iterate_length_seg ls)
  have "euclid_dist p q = length_seg (segments s ! i)"
    using d assms(2) ls by simp
  with q kept show ?thesis by blast
qed


lemma compute_two_segment_arm:
  "compute two_segment_arm 1 1 = Some (Inr (True, iterate two_segment_arm 1 1))"
proof -
  have r: "isReachable two_segment_arm 1 1"
    using sqrt2_less_2 by (simp add: two_segment_arm_eq isReachable_def vsub_def arr_def)
  have "compute_loop (iterate two_segment_arm 1 1) 1 1 = Some (Inr (iterate two_segment_arm 1 1))"
    by (subst compute_loop.simps) (simp add: inMargin_two_segment_arm(2))
  then have "compute_loop two_segment_arm 1 1 = Some (Inr (iterate two_segment_arm 1 1))"
    by (subst compute_loop.simps) (simp add: inMargin_two_segment_arm(1))
  with r show ?thesis by (simp add: compute_def)
qed

theorem pass_keeps_lengths_witness:
  "1 < length (segments two_segment_arm)
   \<and> 0 \<le> length_seg (segments two_segment_arm ! 1)
   \<and> compute two_segment_arm 1 1 = Some (Inr (True, iterate two_segment_arm 1 1))
   \<and> iterate two_segment_arm 1 1 \<noteq> two_segment_arm
   \<and> get_joint_positions (iterate two_segment_arm 1 1) ! Suc 1 = arr (1, 1)
   \<and> length_seg (segments (iterate two_segment_arm 1 1) ! 1) = 1
   \<and> (\<exists>q. get_joint_positions (iterate two_segment_arm 1 1) ! 1 = arr q
          \<and> euclid_dist (1, 1) q = 1)"
proof -
  have h1: "1 < length (segments two_segment_arm)"
    by (simp add: two_segment_arm_eq)
  have e: "length_seg (segments two_segment_arm ! 1) = 1"
    by (simp add: two_segment_arm_eq)
  have h2: "0 \<le> length_seg (segments two_segment_arm ! 1)"
    unfolding e by simp
  have hc: "compute two_segment_arm 1 1 = Some (Inr (True, iterate two_segment_arm 1 1))"
    by (rule compute_two_segment_arm)
  have hne: "iterate two_segment_arm 1 1 \<noteq> two_segment_arm"
    unfolding iterate_two_segment_arm by (simp add: two_segment_arm_eq)
  have h4: "get_joint_positions (iterate two_segment_arm 1 1) ! Suc 1 = arr (1, 1)"
    by (simp add: iterate_two_segment_arm get_joint_positions_def arr_def)
  note w = pass_keeps_lengths [OF h1 h2 disjI2 [OF conjI [OF hc hne]] h4, unfolded e]
  from h1 h2 hc hne h4 w show ?thesis by blast
qed

end
